theory Spec2Isabelle
  imports Complex_Main "HOL-Library.Sublist" "HOL-Library.List_Lexorder" "HOL-Library.Char_ord"
    "HOL-Library.Multiset"
begin

section \<open>Python values\<close>

text \<open>
  A Python \<open>str\<close> is a \<^typ>\<open>string\<close>; one \<^typ>\<open>char\<close> stands for one code point below 256.
  The string operations of the two programs are written out: the \<open>in\<close> test on strings,
  \<open>str.replace\<close>, \<open>str.strip\<close>, \<open>str.lower\<close> and \<open>str.startswith\<close>
  (\<^const>\<open>prefix\<close>).
\<close>

definition is_space :: "char \<Rightarrow> bool" where
  \<comment> \<open>\<open>str.isspace\<close> on one character, which is also the class \<open>\s\<close> of \<open>re\<close>.\<close>
  "is_space c = (c \<in> {CHR 0x09, CHR 0x0A, CHR 0x0B, CHR 0x0C, CHR 0x0D,
                        CHR 0x1C, CHR 0x1D, CHR 0x1E, CHR 0x1F, CHR 0x20, CHR 0x85, CHR 0xA0})"

definition strip :: "string \<Rightarrow> string" where
  "strip s = rev (dropWhile is_space (rev (dropWhile is_space s)))"

fun str_in :: "string \<Rightarrow> string \<Rightarrow> bool" where
  \<comment> \<open>\<open>sub in s\<close>\<close>
  "str_in sub [] = (sub = [])"
| "str_in sub (c # cs) = (prefix sub (c # cs) \<or> str_in sub cs)"

function replace :: "string \<Rightarrow> string \<Rightarrow> string \<Rightarrow> string" where
  \<comment> \<open>\<open>s.replace(old, new)\<close>: the occurrences of \<open>old\<close> are taken from the left and do not
      overlap; the result is not scanned again.\<close>
  "replace old new [] = (if old = [] then new else [])"
| "replace old new (c # cs) =
     (if old = [] then new @ c # replace old new cs
      else if prefix old (c # cs) then new @ replace old new (drop (length old) (c # cs))
      else c # replace old new cs)"
  by pat_completeness auto
termination
  by (relation "measure (\<lambda>(old, new, s). length s)") (auto simp: neq_Nil_conv)

declare replace.simps [simp del]

definition upper_latin1 :: string where
  \<comment> \<open>The upper-case letters from U+00C0 to U+00DE.\<close>
  "upper_latin1 =
     [CHR 0xC0, CHR 0xC1, CHR 0xC2, CHR 0xC3, CHR 0xC4, CHR 0xC5, CHR 0xC6, CHR 0xC7,
     CHR 0xC8, CHR 0xC9, CHR 0xCA, CHR 0xCB, CHR 0xCC, CHR 0xCD, CHR 0xCE, CHR 0xCF,
     CHR 0xD0, CHR 0xD1, CHR 0xD2, CHR 0xD3, CHR 0xD4, CHR 0xD5, CHR 0xD6, CHR 0xD8,
     CHR 0xD9, CHR 0xDA, CHR 0xDB, CHR 0xDC, CHR 0xDD, CHR 0xDE]"

definition lower_latin1 :: string where
  "lower_latin1 =
     [CHR 0xE0, CHR 0xE1, CHR 0xE2, CHR 0xE3, CHR 0xE4, CHR 0xE5, CHR 0xE6, CHR 0xE7,
     CHR 0xE8, CHR 0xE9, CHR 0xEA, CHR 0xEB, CHR 0xEC, CHR 0xED, CHR 0xEE, CHR 0xEF,
     CHR 0xF0, CHR 0xF1, CHR 0xF2, CHR 0xF3, CHR 0xF4, CHR 0xF5, CHR 0xF6, CHR 0xF8,
     CHR 0xF9, CHR 0xFA, CHR 0xFB, CHR 0xFC, CHR 0xFD, CHR 0xFE]"

definition lower_char :: "char \<Rightarrow> char" where
  "lower_char c =
     (case map_of (zip (''ABCDEFGHIJKLMNOPQRSTUVWXYZ'' @ upper_latin1)
                       (''abcdefghijklmnopqrstuvwxyz'' @ lower_latin1)) c of
        Some d \<Rightarrow> d
      | None \<Rightarrow> c)"

definition lower :: "string \<Rightarrow> string" where
  "lower s = map lower_char s"

fun join :: "string \<Rightarrow> string list \<Rightarrow> string" where
  \<comment> \<open>\<open>sep.join(xs)\<close>\<close>
  "join sep [] = []"
| "join sep [x] = x"
| "join sep (x # y # ys) = x @ sep @ join sep (y # ys)"

text \<open>
  The exceptions the programs can meet. All of them are subclasses of \<open>Exception\<close>, which is
  what every handler of the two programs catches.
\<close>

datatype error =
    KeyError | IndexError | TypeError | AttributeError | ValueError
  | RequestError | HTTPStatusError | JSONDecodeError

definition bind_err :: "error + 'a \<Rightarrow> ('a \<Rightarrow> error + 'b) \<Rightarrow> error + 'b" where
  \<comment> \<open>Sequencing: an exception raised by the first step skips the rest.\<close>
  "bind_err m f = (case m of Inl e \<Rightarrow> Inl e | Inr x \<Rightarrow> f x)"

text \<open>
  What \<open>json.loads\<close> returns: \<open>None\<close>, a \<open>bool\<close>, a number, a \<open>str\<close>, a \<open>list\<close> or a \<open>dict\<close>.
  A number is kept as the exact rational it denotes. A dict is the list of its items as the
  document has them; on a repeated key the last value counts, as in \<open>json.loads\<close>.
\<close>

datatype json =
    JNull | JBool bool | JNum rat | JStr string | JArr "json list" | JObj "(string \<times> json) list"

definition dict_get :: "(string \<times> 'v) list \<Rightarrow> string \<Rightarrow> 'v option" where
  "dict_get kvs k = map_of (rev kvs) k"

definition dict_keys :: "(string \<times> 'v) list \<Rightarrow> string list" where
  \<comment> \<open>The keys in insertion order, each once.\<close>
  "dict_keys kvs = rev (remdups (rev (map fst kvs)))"

definition subscript :: "json \<Rightarrow> string \<Rightarrow> error + json" where
  \<comment> \<open>\<open>x[k]\<close> for a string \<open>k\<close>: a missing key raises KeyError, and no other kind of value
      can be indexed by a string.\<close>
  "subscript x k =
     (case x of
        JObj kvs \<Rightarrow> (case dict_get kvs k of Some v \<Rightarrow> Inr v | None \<Rightarrow> Inl KeyError)
      | _ \<Rightarrow> Inl TypeError)"

definition subscript0 :: "json \<Rightarrow> error + json" where
  \<comment> \<open>\<open>x[0]\<close>\<close>
  "subscript0 x =
     (case x of
        JArr [] \<Rightarrow> Inl IndexError
      | JArr (v # _) \<Rightarrow> Inr v
      | JStr [] \<Rightarrow> Inl IndexError
      | JStr (c # _) \<Rightarrow> Inr (JStr [c])
      | JObj _ \<Rightarrow> Inl KeyError
      | _ \<Rightarrow> Inl TypeError)"

definition py_iter :: "json \<Rightarrow> error + json list" where
  \<comment> \<open>The values a \<open>for\<close> over \<open>x\<close> visits: the items of a list, the characters of a string,
      the keys of a dict; nothing else is iterable.\<close>
  "py_iter x =
     (case x of
        JArr xs \<Rightarrow> Inr xs
      | JStr s \<Rightarrow> Inr (map (\<lambda>c. JStr [c]) s)
      | JObj kvs \<Rightarrow> Inr (map JStr (dict_keys kvs))
      | _ \<Rightarrow> Inl TypeError)"

definition truthy :: "json \<Rightarrow> bool" where
  \<comment> \<open>The truth value Python gives a value in \<open>if x\<close>, \<open>x or y\<close>.\<close>
  "truthy x =
     (case x of
        JNull \<Rightarrow> False
      | JBool b \<Rightarrow> b
      | JNum n \<Rightarrow> n \<noteq> 0
      | JStr s \<Rightarrow> s \<noteq> []
      | JArr xs \<Rightarrow> xs \<noteq> []
      | JObj kvs \<Rightarrow> kvs \<noteq> [])"

definition dict_get_default :: "json \<Rightarrow> string \<Rightarrow> json \<Rightarrow> error + json" where
  \<comment> \<open>\<open>x.get(k, d)\<close>: only a dict has the method.\<close>
  "dict_get_default x k d =
     (case x of
        JObj kvs \<Rightarrow> Inr (case dict_get kvs k of Some v \<Rightarrow> v | None \<Rightarrow> d)
      | _ \<Rightarrow> Inl AttributeError)"

text \<open>
  A \<open>datetime\<close> is naive or aware; either way the model keeps the microseconds since the
  epoch of its own time line (wall clock for a naive one, UTC for an aware one). Python orders
  two naive or two aware values by that number and raises TypeError when asked to order a
  naive value against an aware one.
\<close>

datatype datetime = Naive int | Aware int

fun micros :: "datetime \<Rightarrow> int" where
  "micros (Naive t) = t"
| "micros (Aware t) = t"

fun is_aware :: "datetime \<Rightarrow> bool" where
  "is_aware (Naive _) = False"
| "is_aware (Aware _) = True"

text \<open>
  The library functions and the outside world of one run: \<open>html.unescape\<close>,
  \<open>datetime.fromisoformat\<close>, \<open>isoformat\<close> and \<open>strftime\<close> are taken as they are; the clock
  is the sequence of readings that successive calls of \<open>datetime.now()\<close> return, and the
  reading \<open>datetime.utcnow()\<close> returns while the i-th Reddit post is parsed; the network is
  the outcome of the one GET each adapter issues.
\<close>

datatype httpx_response = Httpx_response nat "error + json"
  \<comment> \<open>the status code and what \<open>response.json()\<close> gives\<close>

record env =
  unescape :: "string \<Rightarrow> string"
  fromisoformat :: "string \<Rightarrow> error + datetime"
  isoformat :: "datetime \<Rightarrow> string"
  strftime :: "string \<Rightarrow> datetime \<Rightarrow> string"
  now_at :: "nat \<Rightarrow> datetime"
  utcnow_at :: "nat \<Rightarrow> datetime"
  wp_get :: "error + httpx_response"
  reddit_get :: "error + httpx_response"

section \<open>The record and the two adapters (main.py)\<close>

text \<open>
  The dataclass TrackerData. Python does not check the annotations, and the adapters pass
  some JSON values on as they come (the link, the term names, the Reddit id and url), so
  those fields hold a \<^typ>\<open>json\<close> value.
\<close>

record TrackerData =
  name :: json
  date :: datetime
  description :: string
  categories :: "json list"
  url :: json
  status :: bool

datatype TrackerStatus = OPEN | CLOSED

definition unescaped_str :: "env \<Rightarrow> json \<Rightarrow> error + string" where
  \<comment> \<open>\<open>unescape(x)\<close> followed by a \<open>str\<close> method on the result. A string goes through
      \<open>html.unescape\<close>. \<open>unescape\<close> returns a list or dict with no \<open>'&'\<close> in it as it is, and
      that has no \<open>replace\<close> or \<open>strip\<close>; with \<open>'&'\<close> in it the substitution raises; on the
      rest \<open>'&' in x\<close> raises.\<close>
  "unescaped_str E x =
     (case x of
        JStr s \<Rightarrow> Inr (unescape E s)
      | JArr xs \<Rightarrow> if JStr ''&'' \<in> set xs then Inl TypeError else Inl AttributeError
      | JObj kvs \<Rightarrow> if ''&'' \<in> set (map fst kvs) then Inl TypeError else Inl AttributeError
      | _ \<Rightarrow> Inl TypeError)"

definition str_receiver :: "json \<Rightarrow> error + string" where
  \<comment> \<open>The receiver of \<open>.replace\<close>: only a \<open>str\<close> has the method.\<close>
  "str_receiver x = (case x of JStr s \<Rightarrow> Inr s | _ \<Rightarrow> Inl AttributeError)"

fun wp_terms :: "json list \<Rightarrow> error + json list" where
  \<comment> \<open>\<open>[term['name'] for term in ... if term['taxonomy'] == 'category']\<close>\<close>
  "wp_terms [] = Inr []"
| "wp_terms (t # rest) =
     bind_err (subscript t ''taxonomy'') (\<lambda>taxonomy.
       if taxonomy = JStr ''category''
       then bind_err (subscript t ''name'') (\<lambda>n.
            bind_err (wp_terms rest) (\<lambda>ns. Inr (n # ns)))
       else wp_terms rest)"

definition wp_parse_post :: "env \<Rightarrow> json \<Rightarrow> error + TrackerData" where
  \<comment> \<open>WordPressAPI._parse_post\<close>
  "wp_parse_post E post =
     bind_err (subscript post ''title'') (\<lambda>t.
     bind_err (subscript t ''rendered'') (\<lambda>tr.
     bind_err (unescaped_str E tr) (\<lambda>title.
     let status' = str_in ''is Open for Limited Signup!'' title;
         name' = strip (replace '' is Open for Limited Signup!'' [] title)
     in
     bind_err (subscript post ''excerpt'') (\<lambda>x.
     bind_err (subscript x ''rendered'') (\<lambda>xr.
     bind_err (unescaped_str E xr) (\<lambda>d0.
     let description' = strip (replace ''</p>'' [] (replace ''<p>'' [] d0)) in
     bind_err (subscript post ''_embedded'') (\<lambda>emb.
     bind_err (subscript emb ''wp:term'') (\<lambda>terms.
     bind_err (subscript0 terms) (\<lambda>terms0.
     bind_err (py_iter terms0) (\<lambda>ts.
     bind_err (wp_terms ts) (\<lambda>categories'.
     bind_err (subscript post ''date'') (\<lambda>d.
     bind_err (str_receiver d) (\<lambda>ds.
     bind_err (fromisoformat E (replace ''Z'' ''+00:00'' ds)) (\<lambda>date'.
     bind_err (subscript post ''link'') (\<lambda>link.
     Inr \<lparr>name = JStr name', date = date', description = description',
          categories = categories', url = link, status = status'\<rparr>)))))))))))))))"

definition round_half_even :: "rat \<Rightarrow> int" where
  "round_half_even x =
     (let f = \<lfloor>x\<rfloor>; d = x - of_int f
      in if d < 1 / 2 then f else if 1 / 2 < d then f + 1 else if even f then f else f + 1)"

definition utcfromtimestamp :: "json \<Rightarrow> error + datetime" where
  \<comment> \<open>\<open>datetime.utcfromtimestamp(x)\<close>: a number of seconds (a \<open>bool\<close> is the integer 0 or 1),
      rounded to the microsecond, as a naive datetime; the years 1 to 9999 are the range of
      the type.\<close>
  "utcfromtimestamp x =
     (case x of
        JNum n \<Rightarrow>
          (let us = round_half_even (n * 1000000)
           in if - 62135596800000000 \<le> us \<and> us \<le> 253402300799999999
              then Inr (Naive us) else Inl ValueError)
      | JBool b \<Rightarrow> Inr (Naive (if b then 1000000 else 0))
      | _ \<Rightarrow> Inl TypeError)"

definition reddit_parse_post :: "env \<Rightarrow> string \<Rightarrow> datetime \<Rightarrow> json \<Rightarrow> error + TrackerData" where
  \<comment> \<open>RedditAPI._parse_post; \<open>utcnow\<close> is what \<open>datetime.utcnow()\<close> returns if this call reads
      the clock.\<close>
  "reddit_parse_post E base_url utcnow post =
     bind_err (dict_get_default post ''title'' (JStr [])) (\<lambda>t.
     bind_err (unescaped_str E t) (\<lambda>title.
     let status' = str_in ''is Open for Limited Signup!'' title;
         stripped = strip (replace '' is Open for Limited Signup!'' [] title)
     in
     bind_err (if stripped \<noteq> [] then Inr (JStr stripped)
               else dict_get_default post ''id'' (JStr ''No Title'')) (\<lambda>name'.
     bind_err (dict_get_default post ''selftext'' (JStr [])) (\<lambda>s.
     bind_err (unescaped_str E s) (\<lambda>s'.
     let description' = strip s' in
     bind_err (dict_get_default post ''created_utc'' JNull) (\<lambda>created.
     bind_err (if truthy created then utcfromtimestamp created else Inr utcnow) (\<lambda>date'.
     bind_err (dict_get_default post ''url'' (JStr base_url)) (\<lambda>url'.
     Inr \<lparr>name = name', date = date', description = description',
          categories = [], url = url', status = status'\<rparr>))))))))"

subsection \<open>fetch_posts\<close>

definition raise_for_status :: "nat \<Rightarrow> error + unit" where
  \<comment> \<open>httpx: every status outside 2xx raises HTTPStatusError.\<close>
  "raise_for_status code = (if 200 \<le> code \<and> code < 300 then Inr () else Inl HTTPStatusError)"

fun parse_all :: "('a \<Rightarrow> error + 'b) \<Rightarrow> 'a list \<Rightarrow> error + 'b list" where
  \<comment> \<open>A list comprehension whose body can raise: the first exception ends it.\<close>
  "parse_all f [] = Inr []"
| "parse_all f (x # xs) =
     bind_err (f x) (\<lambda>y. bind_err (parse_all f xs) (\<lambda>ys. Inr (y # ys)))"

definition wp_response_posts :: "env \<Rightarrow> error + json list" where
  \<comment> \<open>WordPressAPI.fetch_posts up to the values \<open>for post in response.json()\<close> visits.\<close>
  "wp_response_posts E =
     bind_err (wp_get E) (\<lambda>response.
       case response of Httpx_response code body \<Rightarrow>
         bind_err (raise_for_status code) (\<lambda>_.
         bind_err body (\<lambda>j. py_iter j)))"

definition wp_fetch_try :: "env \<Rightarrow> error + TrackerData list" where
  \<comment> \<open>The body of the \<open>try\<close> of WordPressAPI.fetch_posts.\<close>
  "wp_fetch_try E = bind_err (wp_response_posts E) (parse_all (wp_parse_post E))"

fun reddit_parse_children :: "env \<Rightarrow> string \<Rightarrow> nat \<Rightarrow> json list \<Rightarrow> error + TrackerData list" where
  \<comment> \<open>\<open>[self._parse_post(post["data"]) for post in posts]\<close>, from the i-th child on.\<close>
  "reddit_parse_children E base_url i [] = Inr []"
| "reddit_parse_children E base_url i (child # rest) =
     bind_err (subscript child ''data'') (\<lambda>post.
     bind_err (reddit_parse_post E base_url (utcnow_at E i) post) (\<lambda>y.
     bind_err (reddit_parse_children E base_url (Suc i) rest) (\<lambda>ys. Inr (y # ys))))"

definition reddit_response_children :: "env \<Rightarrow> error + json list" where
  \<comment> \<open>RedditAPI.fetch_posts up to the values \<open>for post in posts\<close> visits.\<close>
  "reddit_response_children E =
     bind_err (reddit_get E) (\<lambda>response.
       case response of Httpx_response code body \<Rightarrow>
         bind_err (raise_for_status code) (\<lambda>_.
         bind_err body (\<lambda>data.
         bind_err (dict_get_default data ''data'' (JObj [])) (\<lambda>d.
         bind_err (dict_get_default d ''children'' (JArr [])) (\<lambda>posts. py_iter posts)))))"

definition reddit_fetch_try :: "env \<Rightarrow> string \<Rightarrow> error + TrackerData list" where
  \<comment> \<open>The body of the \<open>try\<close> of RedditAPI.fetch_posts.\<close>
  "reddit_fetch_try E base_url =
     bind_err (reddit_response_children E) (reddit_parse_children E base_url 0)"

section \<open>Category statistics, persistence and reporting (main.py)\<close>

text \<open>
  \<open>category_stats\<close> is a Python dict from category to count, kept here as the list of its
  items in insertion order. A key must be hashable (a list or a dict is not: TypeError), and
  two keys are the same key when Python finds them equal, where a \<open>bool\<close> is the number 0 or 1.
\<close>

definition hashable :: "json \<Rightarrow> bool" where
  "hashable x = (case x of JArr _ \<Rightarrow> False | JObj _ \<Rightarrow> False | _ \<Rightarrow> True)"

definition key_num :: "json \<Rightarrow> rat option" where
  "key_num x = (case x of JBool b \<Rightarrow> Some (if b then 1 else 0) | JNum n \<Rightarrow> Some n | _ \<Rightarrow> None)"

definition py_eq :: "json \<Rightarrow> json \<Rightarrow> bool" where
  \<comment> \<open>\<open>a == b\<close> on hashable values\<close>
  "py_eq a b =
     (case (key_num a, key_num b) of
        (Some x, Some y) \<Rightarrow> x = y
      | (None, None) \<Rightarrow> a = b
      | _ \<Rightarrow> False)"

fun stats_get :: "(json \<times> nat) list \<Rightarrow> json \<Rightarrow> nat" where
  \<comment> \<open>\<open>category_stats.get(category, 0)\<close>\<close>
  "stats_get [] c = 0"
| "stats_get ((k, n) # kvs) c = (if py_eq k c then n else stats_get kvs c)"

fun stats_set :: "(json \<times> nat) list \<Rightarrow> json \<Rightarrow> nat \<Rightarrow> (json \<times> nat) list" where
  \<comment> \<open>\<open>category_stats[category] = n\<close>: a key already there keeps its place.\<close>
  "stats_set [] c n = [(c, n)]"
| "stats_set ((k, m) # kvs) c n = (if py_eq k c then (k, n) # kvs else (k, m) # stats_set kvs c n)"

fun count_categories :: "(json \<times> nat) list \<Rightarrow> json list \<Rightarrow> error + (json \<times> nat) list" where
  \<comment> \<open>the inner loop: \<open>for category in tracker.categories\<close>\<close>
  "count_categories stats [] = Inr stats"
| "count_categories stats (category # rest) =
     (if hashable category
      then count_categories (stats_set stats category (stats_get stats category + 1)) rest
      else Inl TypeError)"

fun category_stats :: "(json \<times> nat) list \<Rightarrow> TrackerData list \<Rightarrow> error + (json \<times> nat) list" where
  \<comment> \<open>the outer loop: \<open>for tracker in trackers\<close>; the programs start it from the empty dict\<close>
  "category_stats stats [] = Inr stats"
| "category_stats stats (tracker # rest) =
     bind_err (count_categories stats (categories tracker)) (\<lambda>stats'. category_stats stats' rest)"

text \<open>
  The state a run changes: the files (by path), what was printed, how often the clock was
  read, and whether the two HTTP clients are closed. Writing a file, saving a figure and
  printing are taken to succeed. A chart is kept as the statistics it draws, the Markdown
  report as its parts: the time stamp, the two totals and the rows of its table.
\<close>

type_synonym table_row = "json \<times> string \<times> string \<times> TrackerStatus"

datatype out =
    Wp_api_error error | Reddit_api_error error | No_trackers_found | Main_run_error error
  | No_data_to_visualize | No_category_data | Console_table "table_row list"

datatype content =
    Snapshot json
  | Bar_chart "(json \<times> nat) list"
  | Pie_chart "(json \<times> nat) list"
  | Markdown_report string nat nat "table_row list"

record world =
  files :: "string \<Rightarrow> content option"
  printed :: "out list"
  ticks :: nat
  wp_closed :: bool
  reddit_closed :: bool

definition emit :: "out \<Rightarrow> world \<Rightarrow> world" where
  "emit x w = w\<lparr>printed := printed w @ [x]\<rparr>"

definition write_file :: "string \<Rightarrow> content \<Rightarrow> world \<Rightarrow> world" where
  "write_file path c w = w\<lparr>files := (files w)(path \<mapsto> c)\<rparr>"

definition now :: "env \<Rightarrow> world \<Rightarrow> datetime \<times> world" where
  \<comment> \<open>\<open>datetime.now()\<close>\<close>
  "now E w = (now_at E (ticks w), w\<lparr>ticks := Suc (ticks w)\<rparr>)"

definition wp_fetch_posts :: "env \<Rightarrow> world \<Rightarrow> TrackerData list \<times> world" where
  \<comment> \<open>WordPressAPI.fetch_posts: \<open>except Exception\<close> prints and returns the empty list.\<close>
  "wp_fetch_posts E w =
     (case wp_fetch_try E of
        Inl e \<Rightarrow> ([], emit (Wp_api_error e) w)
      | Inr ts \<Rightarrow> (ts, w))"

definition reddit_fetch_posts :: "env \<Rightarrow> string \<Rightarrow> world \<Rightarrow> TrackerData list \<times> world" where
  \<comment> \<open>RedditAPI.fetch_posts\<close>
  "reddit_fetch_posts E base_url w =
     (case reddit_fetch_try E base_url of
        Inl e \<Rightarrow> ([], emit (Reddit_api_error e) w)
      | Inr ts \<Rightarrow> (ts, w))"

definition serialize_tracker :: "env \<Rightarrow> TrackerData \<Rightarrow> json" where
  \<comment> \<open>DataManager._serialize_tracker: the fields but the date, then the date as text.\<close>
  "serialize_tracker E t =
     JObj [(''name'', name t), (''description'', JStr (description t)),
           (''categories'', JArr (categories t)), (''url'', url t),
           (''status'', JBool (status t)), (''date'', JStr (isoformat E (date t)))]"

definition save :: "env \<Rightarrow> string \<Rightarrow> TrackerData list \<Rightarrow> world \<Rightarrow> world" where
  \<comment> \<open>DataManager.save, for the storage directory \<open>storage\<close>\<close>
  "save E storage trackers w =
     (let (t1, w1) = now E w;
          data = JObj [(''last_updated'', JStr (isoformat E t1)),
                       (''trackers'', JArr (map (serialize_tracker E) trackers))];
          (t2, w2) = now E w1;
          current_date = strftime E ''%Y-%m-%d'' t2;
          w3 = write_file (storage @ ''/trackers_'' @ current_date @ ''.json'') (Snapshot data) w2
      in write_file (storage @ ''/latest.json'') (Snapshot data) w3)"

definition snapshot :: "env \<Rightarrow> datetime \<Rightarrow> TrackerData list \<Rightarrow> json" where
  \<comment> \<open>The object \<open>data\<close> that save dumps, for the clock reading \<open>t\<close>.\<close>
  "snapshot E t trackers =
     JObj [(''last_updated'', JStr (isoformat E t)),
           (''trackers'', JArr (map (serialize_tracker E) trackers))]"

definition dated_file :: "env \<Rightarrow> string \<Rightarrow> datetime \<Rightarrow> string" where
  \<comment> \<open>The path of the dated file of save, for the clock reading \<open>t\<close>.\<close>
  "dated_file E storage t = storage @ ''/trackers_'' @ strftime E ''%Y-%m-%d'' t @ ''.json''"

definition create_visualizations :: "string \<Rightarrow> TrackerData list \<Rightarrow> world \<Rightarrow> error option \<times> world" where
  \<comment> \<open>DataManager.create_visualizations; the first component is the exception it raises, if any\<close>
  "create_visualizations storage trackers w =
     (if trackers = [] then (None, emit No_data_to_visualize w)
      else case category_stats [] trackers of
        Inl e \<Rightarrow> (Some e, w)
      | Inr stats \<Rightarrow>
          if stats \<noteq> []
          then (None, write_file (storage @ ''/category_percentage.png'') (Pie_chart stats)
                       (write_file (storage @ ''/category_distribution.png'') (Bar_chart stats) w))
          else (None, emit No_category_data w))"

definition comparable :: "datetime list \<Rightarrow> bool" where
  "comparable ds = (length ds < 2 \<or> list_all is_aware ds \<or> list_all (\<lambda>d. \<not> is_aware d) ds)"

definition sorted_by_date_desc :: "TrackerData list \<Rightarrow> error + TrackerData list" where
  \<comment> \<open>\<open>sorted(trackers, key=lambda x: x.date, reverse=True)\<close>: a stable sort on the list
      reversed, reversed again, so records of equal date keep their order. The keys are
      compared with \<open><\<close>; among two or more keys of both kinds the sort compares a naive with
      an aware one, which raises TypeError.\<close>
  "sorted_by_date_desc ts =
     (if comparable (map date ts)
      then Inr (rev (sort_key (\<lambda>t. micros (date t)) (rev ts)))
      else Inl TypeError)"

definition str_item :: "json \<Rightarrow> error + string" where
  \<comment> \<open>an item of the argument of \<open>str.join\<close>\<close>
  "str_item x = (case x of JStr s \<Rightarrow> Inr s | _ \<Rightarrow> Inl TypeError)"

definition table_row :: "env \<Rightarrow> TrackerData \<Rightarrow> error + table_row" where
  \<comment> \<open>The four cells of a row, the same in the console table and in the report.\<close>
  "table_row E tracker =
     bind_err (if categories tracker \<noteq> []
               then bind_err (parse_all str_item (categories tracker)) (\<lambda>ss. Inr (join '', '' ss))
               else Inr ''-'') (\<lambda>cell.
     Inr (name tracker, cell, strftime E ''%Y-%m-%d'' (date tracker),
          if status tracker then OPEN else CLOSED))"

definition display_results :: "env \<Rightarrow> TrackerData list \<Rightarrow> world \<Rightarrow> error option \<times> world" where
  \<comment> \<open>TrackerMonitor._display_results\<close>
  "display_results E trackers w =
     (case bind_err (sorted_by_date_desc trackers) (parse_all (table_row E)) of
        Inl e \<Rightarrow> (Some e, w)
      | Inr rows \<Rightarrow> (None, emit (Console_table rows) w))"

definition create_markdown_report :: "env \<Rightarrow> string \<Rightarrow> TrackerData list \<Rightarrow> world \<Rightarrow> error option \<times> world" where
  \<comment> \<open>TrackerMonitor._create_markdown_report, for the directory \<open>data_dir\<close>\<close>
  "create_markdown_report E data_dir trackers w =
     (case category_stats [] trackers of
        Inl e \<Rightarrow> (Some e, w)
      | Inr stats \<Rightarrow>
          (let (t, w1) = now E w in
           case bind_err (sorted_by_date_desc trackers) (parse_all (table_row E)) of
             Inl e \<Rightarrow> (Some e, w1)
           | Inr rows \<Rightarrow>
               (None, write_file (data_dir @ ''/README.md'')
                        (Markdown_report (strftime E ''%Y-%m-%d %H:%M:%S'' t) (length trackers)
                           (length stats) rows) w1)))"

definition run_try :: "env \<Rightarrow> world \<Rightarrow> error option \<times> world" where
  \<comment> \<open>The body of the \<open>try\<close> of TrackerMonitor.run.\<close>
  "run_try E w =
     (let (wordpress_trackers, w1) = wp_fetch_posts E w;
          (reddit_trackers, w2) = reddit_fetch_posts E ''https://www.reddit.com/r/OpenSignup'' w1;
          trackers = wordpress_trackers @ reddit_trackers
      in if trackers = [] then (None, emit No_trackers_found w2)
         else let w3 = save E ''data'' trackers w2 in
              case create_visualizations ''data'' trackers w3 of
                (Some e, w4) \<Rightarrow> (Some e, w4)
              | (None, w4) \<Rightarrow>
                  (case display_results E trackers w4 of
                     (Some e, w5) \<Rightarrow> (Some e, w5)
                   | (None, w5) \<Rightarrow> create_markdown_report E ''data'' trackers w5))"

definition fetched :: "env \<Rightarrow> world \<Rightarrow> TrackerData list" where
  \<comment> \<open>\<open>trackers\<close> in run: what the two adapters return, WordPress first.\<close>
  "fetched E w =
     fst (wp_fetch_posts E w) @
     fst (reddit_fetch_posts E ''https://www.reddit.com/r/OpenSignup'' (snd (wp_fetch_posts E w)))"

definition after_fetch :: "env \<Rightarrow> world \<Rightarrow> world" where
  \<comment> \<open>The state of run after the two fetches.\<close>
  "after_fetch E w =
     snd (reddit_fetch_posts E ''https://www.reddit.com/r/OpenSignup'' (snd (wp_fetch_posts E w)))"

definition run :: "env \<Rightarrow> world \<Rightarrow> world" where
  \<comment> \<open>TrackerMonitor.run: \<open>except Exception\<close> prints, \<open>finally\<close> closes both clients.\<close>
  "run E w =
     (let (r, w1) = run_try E w;
          w2 = (case r of Some e \<Rightarrow> emit (Main_run_error e) w1 | None \<Rightarrow> w1)
      in w2\<lparr>wp_closed := True, reddit_closed := True\<rparr>)"

section \<open>The HTML scraper (scraper.py)\<close>

text \<open>
  The network as the scraper sees it: the i-th call of \<open>session.get\<close> raises, or returns a
  response with a status code and a body. What the scraper does besides returning is kept
  as the list of its events in order.
\<close>

datatype get_outcome = Get_raises error | Get_response nat string

datatype scraper_event =
    Get_request | Sleep nat | Connection_error error
  | Html_content string | Post_error error | Parse_error error

fun attempts :: "nat \<Rightarrow> (nat \<Rightarrow> get_outcome) \<Rightarrow> nat \<Rightarrow> (error + string) \<times> scraper_event list" where
  \<comment> \<open>The loop \<open>for _ in range(k)\<close> of sayfa_icerik_al from the i-th call on, with the
      \<open>return ""\<close> after it; an exception of \<open>session.get\<close> leaves the loop.\<close>
  "attempts 0 net i = (Inr [], [])"
| "attempts (Suc k) net i =
     (case net i of
        Get_raises e \<Rightarrow> (Inl e, [Get_request])
      | Get_response status_code body \<Rightarrow>
          if status_code = 200 then (Inr body, [Get_request])
          else (let (r, evs) = attempts k net (Suc i) in (r, Get_request # Sleep 2 # evs)))"

definition sayfa_icerik_al :: "(nat \<Rightarrow> get_outcome) \<Rightarrow> string \<times> scraper_event list" where
  \<comment> \<open>The \<open>try\<close> is around the whole loop: \<open>except Exception\<close> prints and returns \<open>""\<close>.\<close>
  "sayfa_icerik_al net =
     (case attempts 3 net 0 of
        (Inl e, evs) \<Rightarrow> ([], evs @ [Connection_error e])
      | (Inr body, evs) \<Rightarrow> (body, evs))"

definition failed_response :: "get_outcome \<Rightarrow> bool" where
  \<comment> \<open>A response came, and its status is not 200.\<close>
  "failed_response x = (case x of Get_response c b \<Rightarrow> c \<noteq> 200 | Get_raises e \<Rightarrow> False)"

fun collapse_ws :: "bool \<Rightarrow> string \<Rightarrow> string" where
  \<comment> \<open>\<open>re.sub(r'\s+', ' ', metin)\<close>; the flag says that the character before was white space.\<close>
  "collapse_ws prev [] = []"
| "collapse_ws prev (c # cs) =
     (if is_space c then (if prev then collapse_ws True cs else CHR '' '' # collapse_ws True cs)
      else c # collapse_ws False cs)"

definition temizle_metin :: "string \<Rightarrow> string" where
  "temizle_metin metin = (if metin = [] then [] else strip (collapse_ws False metin))"

definition url_duzenle :: "string \<Rightarrow> string" where
  "url_duzenle u =
     (if u = [] then []
      else if \<not> prefix ''http'' u then ''https://opentrackers.org'' @ u
      else u)"

text \<open>
  The tree BeautifulSoup builds: a tag with its name, its attributes and its children, or a
  string. \<open>find_all\<close> and \<open>find\<close> search the descendants of a tag in document order.
\<close>

datatype node = NavigableString string | Tag string "(string \<times> string) list" "node list"

fun descendants :: "node \<Rightarrow> node list" where
  "descendants (NavigableString s) = []"
| "descendants (Tag nm attrs cs) = concat (map (\<lambda>c. c # descendants c) cs)"

fun node_text :: "node \<Rightarrow> string" where
  \<comment> \<open>\<open>.text\<close>\<close>
  "node_text (NavigableString s) = s"
| "node_text (Tag nm attrs cs) = concat (map node_text cs)"

definition is_tag :: "string \<Rightarrow> node \<Rightarrow> bool" where
  "is_tag nm n = (case n of Tag t _ _ \<Rightarrow> t = nm | _ \<Rightarrow> False)"

definition attr :: "node \<Rightarrow> string \<Rightarrow> string option" where
  \<comment> \<open>\<open>elem.get(key)\<close>\<close>
  "attr n k = (case n of Tag _ attrs _ \<Rightarrow> dict_get attrs k | _ \<Rightarrow> None)"

fun split_ws :: "string \<Rightarrow> string \<Rightarrow> string list" where
  \<comment> \<open>The class names of a \<open>class\<close> attribute: its runs of characters that are not white
      space. The first argument is the run read so far.\<close>
  "split_ws cur [] = (if cur = [] then [] else [cur])"
| "split_ws cur (c # cs) =
     (if is_space c then (if cur = [] then split_ws [] cs else cur # split_ws [] cs)
      else split_ws (cur @ [c]) cs)"

definition class_matches :: "(string \<Rightarrow> bool) \<Rightarrow> node \<Rightarrow> bool" where
  \<comment> \<open>The \<open>class_\<close> filter of BeautifulSoup: it is tried on each class name of the tag and
      on the names joined by a blank; a tag with no \<open>class\<close> attribute does not match.\<close>
  "class_matches f n =
     (case attr n ''class'' of
        None \<Rightarrow> False
      | Some v \<Rightarrow> (let names = split_ws [] v in list_ex f names \<or> f (join '' '' names)))"

definition find_all :: "node \<Rightarrow> (node \<Rightarrow> bool) \<Rightarrow> node list" where
  "find_all n p = filter p (descendants n)"

definition find_first :: "node \<Rightarrow> (node \<Rightarrow> bool) \<Rightarrow> node option" where
  \<comment> \<open>\<open>n.find(...)\<close>\<close>
  "find_first n p = find p (descendants n)"

definition post_containers :: "node \<Rightarrow> node list" where
  \<comment> \<open>The three searches of veri_ayikla joined by \<open>or\<close>: an empty result is false.\<close>
  "post_containers soup =
     (let articles = find_all soup (is_tag ''article'') in
      if articles \<noteq> [] then articles
      else let posts = find_all soup
                 (\<lambda>n. is_tag ''div'' n \<and> class_matches (\<lambda>x. x \<noteq> [] \<and> str_in ''post'' (lower x)) n) in
        if posts \<noteq> [] then posts
        else find_all soup (\<lambda>n. is_tag ''div'' n \<and> class_matches (\<lambda>x. x = ''post-list'') n))"

fun find_title :: "node \<Rightarrow> string list \<Rightarrow> string option" where
  \<comment> \<open>\<open>for title_tag in [...]\<close>: the first kind of heading the container has gives the
      title, and the loop breaks.\<close>
  "find_title post [] = None"
| "find_title post (title_tag # rest) =
     (case find_first post (is_tag title_tag) of
        Some title_elem \<Rightarrow> Some (node_text title_elem)
      | None \<Rightarrow> find_title post rest)"

record veri =
  baslik :: string
  baglanti :: string
  tarih :: string
  ozet :: string
  zaman :: string

definition first_some :: "'a option \<Rightarrow> 'a option \<Rightarrow> 'a option" where
  \<comment> \<open>\<open>a or b\<close> on the results of \<open>find\<close>: a tag found is true.\<close>
  "first_some a b = (case a of Some x \<Rightarrow> Some x | None \<Rightarrow> b)"

definition parse_container :: "(nat \<Rightarrow> string) \<Rightarrow> (nat \<Rightarrow> string) \<Rightarrow> nat \<Rightarrow> node \<Rightarrow> error + veri option" where
  \<comment> \<open>The body of the inner \<open>try\<close> for the i-th container; \<open>None\<close> is \<open>continue\<close>.
      \<open>date_now i\<close> and \<open>time_now i\<close> are the clock there, as the two formats print it.\<close>
  "parse_container date_now time_now i post =
     (case find_title post [''h1'', ''h2'', ''h3''] of
        None \<Rightarrow> Inr None
      | Some title \<Rightarrow>
          if title = [] then Inr None
          else (case find_first post (is_tag ''a'') of
            None \<Rightarrow> Inr None
          | Some link_elem \<Rightarrow>
              (case attr link_elem ''href'' of
                 None \<Rightarrow> Inr None
               | Some link \<Rightarrow>
                   if link = [] then Inr None
                   else
                     (let date_elem = first_some (find_first post (is_tag ''time''))
                            (find_first post (class_matches (\<lambda>x. x \<noteq> [] \<and> str_in ''date'' (lower x))));
                          date' = (case date_elem of
                                     Some e \<Rightarrow>
                                       (case attr e ''datetime'' of
                                          Some d \<Rightarrow> if d \<noteq> [] then d else node_text e
                                        | None \<Rightarrow> node_text e)
                                   | None \<Rightarrow> date_now i);
                          content_elem = first_some (find_first post (class_matches (\<lambda>x. x = ''entry-content'')))
                            (first_some (find_first post (class_matches (\<lambda>x. x = ''content'')))
                               (find_first post (is_tag ''p'')));
                          content' = (case content_elem of
                                        Some e \<Rightarrow> temizle_metin (node_text e)
                                      | None \<Rightarrow> [])
                      in Inr (Some \<lparr>baslik = temizle_metin title, baglanti = url_duzenle link,
                                    tarih = temizle_metin date',
                                    ozet = (if content' \<noteq> [] then take 200 content' @ ''...'' else []),
                                    zaman = time_now i\<rparr>)))))"

fun process_containers :: "(nat \<Rightarrow> node \<Rightarrow> error + 'a option) \<Rightarrow> nat \<Rightarrow> node list \<Rightarrow> 'a list \<times> scraper_event list" where
  \<comment> \<open>\<open>for post in post_containers\<close> with its \<open>try\<close>: an exception of the body is printed
      and the loop goes on with the next container.\<close>
  "process_containers body i [] = ([], [])"
| "process_containers body i (post # rest) =
     (let (vs, evs) = process_containers body (Suc i) rest in
      case body i post of
        Inl e \<Rightarrow> (vs, Post_error e # evs)
      | Inr None \<Rightarrow> (vs, evs)
      | Inr (Some v) \<Rightarrow> (v # vs, evs))"

definition veri_ayikla ::
  "(string \<Rightarrow> error + node) \<Rightarrow> (nat \<Rightarrow> string) \<Rightarrow> (nat \<Rightarrow> string) \<Rightarrow> (nat \<Rightarrow> get_outcome)
     \<Rightarrow> veri list \<times> scraper_event list" where
  \<comment> \<open>\<open>html_parser\<close> is \<open>BeautifulSoup(html_content, 'html.parser')\<close>.\<close>
  "veri_ayikla html_parser date_now time_now net =
     (let (html_content, evs) = sayfa_icerik_al net in
      if html_content = [] then ([], evs)
      else case html_parser html_content of
        Inl e \<Rightarrow> ([], evs @ [Parse_error e])
      | Inr soup \<Rightarrow>
          (let containers = post_containers soup in
           if containers = [] then ([], evs @ [Html_content (take 500 html_content)])
           else (let (veriler, evs') = process_containers (parse_container date_now time_now) 0 containers
                 in (rev (sort_key tarih (rev veriler)), evs @ evs'))))"

section \<open>Concrete inputs\<close>

text \<open>
  An environment for the examples. It gives the library functions on the values the
  examples use and nowhere else: \<open>html.unescape\<close> returns a string with no ampersand as it
  is; the dates are the midnights (UTC) of 1 to 4 January 2024; the clock stands at
  4 January 2024; both GETs fail unless an example says otherwise.
\<close>

definition example_date :: "datetime \<Rightarrow> string" where
  "example_date d =
     (if micros d = 1704067200000000 then ''2024-01-01''
      else if micros d = 1704153600000000 then ''2024-01-02''
      else if micros d = 1704240000000000 then ''2024-01-03''
      else if micros d = 1704326400000000 then ''2024-01-04''
      else [])"

definition example_env :: env where
  "example_env =
     \<lparr>unescape = (\<lambda>s. s),
      fromisoformat = (\<lambda>s.
        if s = ''2024-01-01T00:00:00'' then Inr (Naive 1704067200000000)
        else if s = ''2024-01-03T00:00:00'' then Inr (Naive 1704240000000000)
        else if s = ''2024-01-03T00:00:00+00:00'' then Inr (Aware 1704240000000000)
        else Inl ValueError),
      isoformat = (\<lambda>d. example_date d @ ''T00:00:00'' @ (if is_aware d then ''+00:00'' else [])),
      strftime = (\<lambda>fmt d. if fmt = ''%Y-%m-%d'' then example_date d else example_date d @ '' 00:00:00''),
      now_at = (\<lambda>i. Naive 1704326400000000),
      utcnow_at = (\<lambda>i. Naive 1704326400000000),
      wp_get = Inl RequestError,
      reddit_get = Inl RequestError\<rparr>"

definition example_wp_post :: "string \<Rightarrow> string \<Rightarrow> json" where
  \<comment> \<open>A post of the WordPress API with the given title and date, one category and one tag.\<close>
  "example_wp_post title d =
     JObj [(''title'', JObj [(''rendered'', JStr title)]),
           (''excerpt'', JObj [(''rendered'', JStr ''<p>A tracker.</p>'')]),
           (''date'', JStr d),
           (''link'', JStr ''https://opentrackers.org/foo/''),
           (''_embedded'', JObj [(''wp:term'',
              JArr [JArr [JObj [(''name'', JStr ''General''), (''taxonomy'', JStr ''category'')],
                          JObj [(''name'', JStr ''limited-signup''), (''taxonomy'', JStr ''post_tag'')]]])])]"

definition example_reddit_post :: "string \<Rightarrow> json \<Rightarrow> json" where
  \<comment> \<open>The \<open>data\<close> of a child of the Reddit listing with the given title and creation time.\<close>
  "example_reddit_post title created =
     JObj [(''title'', JStr title), (''selftext'', JStr ''Signups are open.''),
           (''created_utc'', created), (''url'', JStr ''https://example.org/signup''),
           (''id'', JStr ''abc123'')]"

definition empty_world :: world where
  "empty_world = \<lparr>files = Map.empty, printed = [], ticks = 0, wp_closed = False, reddit_closed = False\<rparr>"

definition net_first_raises :: "nat \<Rightarrow> get_outcome" where
  \<comment> \<open>A network whose first GET raises and whose later GETs would all succeed.\<close>
  "net_first_raises i = (if i = 0 then Get_raises RequestError else Get_response 200 ''<html></html>'')"

definition net_third_succeeds :: "nat \<Rightarrow> get_outcome" where
  \<comment> \<open>A network that answers 503 twice and then 200.\<close>
  "net_third_succeeds i = (if i < 2 then Get_response 503 ''busy'' else Get_response 200 ''<html></html>'')"

definition net_all_fail :: "nat \<Rightarrow> get_outcome" where
  \<comment> \<open>A network that always answers 503.\<close>
  "net_all_fail i = Get_response 503 ''busy''"





definition example_env_mixed :: env where
  \<comment> \<open>WordPress returns one post whose date ends in Z, Reddit one post created on
      2 January 2024.\<close>
  "example_env_mixed =
     example_env
       \<lparr>wp_get := Inr (Httpx_response 200 (Inr (JArr
           [example_wp_post ''Foo Tracker is Open for Limited Signup!'' ''2024-01-03T00:00:00Z'']))),
        reddit_get := Inr (Httpx_response 200 (Inr (JObj [(''data'', JObj [(''children'', JArr
           [JObj [(''data'', example_reddit_post ''Bar is Open for Limited Signup!'' (JNum 1704153600))]])])])))\<rparr>"


section \<open>Properties\<close>

subsection \<open>Category statistics\<close>

lemma py_eq_refl: "py_eq a a"
  by (simp add: py_eq_def split: option.splits)

lemma py_eq_sym: "py_eq a b \<Longrightarrow> py_eq b a"
  by (auto simp: py_eq_def split: option.splits)

lemma py_eq_trans: "py_eq a b \<Longrightarrow> py_eq b c \<Longrightarrow> py_eq a c"
  by (auto simp: py_eq_def split: option.splits)

lemma stats_get_set:
  "stats_get (stats_set stats c n) c' = (if py_eq c c' then n else stats_get stats c')"
proof (induction stats)
  case Nil
  show ?case by simp
next
  case (Cons kv stats)
  obtain k m where kv: "kv = (k, m)" by (cases kv)
  show ?case
  proof (cases "py_eq k c")
    case True
    then have "py_eq k c' = py_eq c c'"
      using py_eq_sym py_eq_trans by blast
    with True show ?thesis unfolding kv by simp
  next
    case False
    then have "py_eq c c' \<Longrightarrow> \<not> py_eq k c'"
      using py_eq_sym py_eq_trans by blast
    with False Cons.IH show ?thesis unfolding kv by auto
  qed
qed


lemma stats_get_cong: "py_eq x c \<Longrightarrow> stats_get stats x = stats_get stats c"
proof (induction stats)
  case Nil
  show ?case by simp
next
  case (Cons kv stats)
  obtain k m where kv: "kv = (k, m)" by (cases kv)
  have "py_eq k x = py_eq k c"
    using Cons.prems py_eq_sym py_eq_trans by blast
  with Cons show ?case unfolding kv by simp
qed

lemma count_categories_counts:
  "list_all hashable cs \<Longrightarrow>
   \<exists>stats'. count_categories stats cs = Inr stats' \<and>
     (\<forall>c. stats_get stats' c = stats_get stats c + length (filter (\<lambda>x. py_eq x c) cs))"
proof (induction cs arbitrary: stats)
  case Nil
  show ?case by simp
next
  case (Cons x cs)
  from Cons.prems have hx: "hashable x" and hcs: "list_all hashable cs" by simp_all
  let ?s = "stats_set stats x (stats_get stats x + 1)"
  from Cons.IH [OF hcs, of ?s] obtain stats' where
    r: "count_categories ?s cs = Inr stats'" and
    c: "\<forall>c. stats_get stats' c = stats_get ?s c + length (filter (\<lambda>x. py_eq x c) cs)"
    by blast
  have "stats_get stats' c = stats_get stats c + length (filter (\<lambda>y. py_eq y c) (x # cs))" for c
  proof (cases "py_eq x c")
    case True
    then show ?thesis using c stats_get_cong [OF True, of stats] by (simp add: stats_get_set)
  next
    case False
    then show ?thesis using c by (simp add: stats_get_set)
  qed
  with r hx show ?case by simp
qed

lemma category_stats_counts_from:
  "list_all hashable (concat (map categories ts)) \<Longrightarrow>
   \<exists>stats'. category_stats stats ts = Inr stats' \<and>
     (\<forall>c. stats_get stats' c =
            stats_get stats c + length (filter (\<lambda>x. py_eq x c) (concat (map categories ts))))"
proof (induction ts arbitrary: stats)
  case Nil
  show ?case by simp
next
  case (Cons t ts)
  from Cons.prems have h1: "list_all hashable (categories t)"
    and h2: "list_all hashable (concat (map categories ts))" by simp_all
  from count_categories_counts [OF h1, of stats] obtain s1 where
    r1: "count_categories stats (categories t) = Inr s1" and
    c1: "\<forall>c. stats_get s1 c = stats_get stats c + length (filter (\<lambda>x. py_eq x c) (categories t))"
    by blast
  from Cons.IH [OF h2, of s1] obtain s2 where
    r2: "category_stats s1 ts = Inr s2" and
    c2: "\<forall>c. stats_get s2 c = stats_get s1 c + length (filter (\<lambda>x. py_eq x c) (concat (map categories ts)))"
    by blast
  show ?case using r1 r2 c1 c2 by (simp add: bind_err_def)
qed

lemma py_eq_JStr: "py_eq x (JStr s) = (x = JStr s)"
  by (cases x) (simp_all add: py_eq_def key_num_def)

lemma filter_py_eq_JStr: "length (filter (\<lambda>x. py_eq x (JStr s)) xs) = count_list xs (JStr s)"
  by (induction xs) (simp_all add: py_eq_JStr)

text \<open>
  Claim C7. The statistics count every category of every record: when each category can be
  a dict key, the loop returns a dict whose count for a category is the number of its
  occurrences in the categories of all records together, so a record with several
  categories adds one to each of them; for a string that is the number of times the string
  occurs. The records with the categories A, B and A give exactly A: 2, B: 1.
\<close>

theorem category_stats_counts:
  "(list_all hashable (concat (map categories ts)) \<longrightarrow>
      (\<exists>stats. category_stats [] ts = Inr stats \<and>
         (\<forall>c. stats_get stats c = length (filter (\<lambda>x. py_eq x c) (concat (map categories ts)))) \<and>
         (\<forall>s. stats_get stats (JStr s) = count_list (concat (map categories ts)) (JStr s)))) \<and>
   (categories a = [JStr ''A'', JStr ''B''] \<and> categories b = [JStr ''A''] \<longrightarrow>
      category_stats [] [a, b] = Inr [(JStr ''A'', 2), (JStr ''B'', 1)])"
proof (intro conjI impI)
  assume h: "list_all hashable (concat (map categories ts))"
  from category_stats_counts_from [OF h, of "[]"] obtain stats where
    r: "category_stats [] ts = Inr stats" and
    c: "\<forall>c. stats_get stats c = length (filter (\<lambda>x. py_eq x c) (concat (map categories ts)))"
    by auto
  show "\<exists>stats. category_stats [] ts = Inr stats \<and>
         (\<forall>c. stats_get stats c = length (filter (\<lambda>x. py_eq x c) (concat (map categories ts)))) \<and>
         (\<forall>s. stats_get stats (JStr s) = count_list (concat (map categories ts)) (JStr s))"
    using r c by (simp add: filter_py_eq_JStr)
next
  assume "categories a = [JStr ''A'', JStr ''B''] \<and> categories b = [JStr ''A'']"
  then show "category_stats [] [a, b] = Inr [(JStr ''A'', 2), (JStr ''B'', 1)]"
    by (simp add: bind_err_def hashable_def py_eq_JStr)
qed

theorem category_stats_counts_witness:
  "list_all hashable (concat (map categories
      [\<lparr>name = JStr ''x'', date = Naive 0, description = [], categories = [JStr ''A'', JStr ''B''],
        url = JStr [], status = True\<rparr>,
       \<lparr>name = JStr ''y'', date = Naive 0, description = [], categories = [JStr ''A''],
        url = JStr [], status = True\<rparr>])) \<and>
   category_stats []
      [\<lparr>name = JStr ''x'', date = Naive 0, description = [], categories = [JStr ''A'', JStr ''B''],
        url = JStr [], status = True\<rparr>,
       \<lparr>name = JStr ''y'', date = Naive 0, description = [], categories = [JStr ''A''],
        url = JStr [], status = True\<rparr>]
     = Inr [(JStr ''A'', 2), (JStr ''B'', 1)] \<and>
   stats_get [(JStr ''A'', 2), (JStr ''B'', 1)] (JStr ''A'') = 2"
  using category_stats_counts
    [of "[\<lparr>name = JStr ''x'', date = Naive 0, description = [], categories = [JStr ''A'', JStr ''B''],
           url = JStr [], status = True\<rparr>,
          \<lparr>name = JStr ''y'', date = Naive 0, description = [], categories = [JStr ''A''],
           url = JStr [], status = True\<rparr>]"
        "\<lparr>name = JStr ''x'', date = Naive 0, description = [], categories = [JStr ''A'', JStr ''B''],
           url = JStr [], status = True\<rparr>"
        "\<lparr>name = JStr ''y'', date = Naive 0, description = [], categories = [JStr ''A''],
           url = JStr [], status = True\<rparr>"]
  by (simp add: hashable_def py_eq_JStr)

subsection \<open>Strings\<close>













subsection \<open>The marker phrase in the title\<close>

lemmas parse_eval =
  wp_parse_post_def reddit_parse_post_def example_wp_post_def example_reddit_post_def
  example_env_def bind_err_def subscript_def dict_get_def dict_get_default_def
  unescaped_str_def subscript0_def py_iter_def dict_keys_def str_receiver_def strip_def is_space_def
  truthy_def utcfromtimestamp_def round_half_even_def replace.simps










text \<open>
  Claim C4. The WordPress adapter has no fallback for the name: a title that is only the
  phrase with its leading blank is parsed to a record whose name is the empty string. (The
  Reddit adapter falls back to the post's id.)
\<close>

theorem wp_empty_name:
  "wp_parse_post example_env (example_wp_post '' is Open for Limited Signup!'' ''2024-01-01T00:00:00'') =
     Inr \<lparr>name = JStr [], date = Naive 1704067200000000, description = ''A tracker.'',
          categories = [JStr ''General''], url = JStr ''https://opentrackers.org/foo/'', status = True\<rparr>"
  by (simp add: parse_eval)


subsection \<open>The date of a Reddit post\<close>






subsection \<open>fetch_posts\<close>














lemmas fetch_eval =
  wp_fetch_posts_def wp_fetch_try_def wp_response_posts_def reddit_fetch_posts_def
  reddit_fetch_try_def reddit_response_children_def raise_for_status_def emit_def empty_world_def


subsection \<open>Persistence\<close>

lemma save_eq:
  "save E storage trackers w =
     write_file (storage @ ''/latest.json'') (Snapshot (snapshot E (now_at E (ticks w)) trackers))
       (write_file (dated_file E storage (now_at E (Suc (ticks w))))
          (Snapshot (snapshot E (now_at E (ticks w)) trackers))
          (w\<lparr>ticks := Suc (Suc (ticks w))\<rparr>))"
  by (simp add: save_def now_def snapshot_def dated_file_def Let_def)

lemma ticks_save: "ticks (save E storage trackers w) = Suc (Suc (ticks w))"
  by (simp add: save_eq write_file_def)

lemma printed_save: "printed (save E storage trackers w) = printed w"
  by (simp add: save_eq write_file_def)

lemma files_save:
  "files (save E storage trackers w) =
     ((files w)(dated_file E storage (now_at E (Suc (ticks w))) \<mapsto>
                  Snapshot (snapshot E (now_at E (ticks w)) trackers),
                storage @ ''/latest.json'' \<mapsto> Snapshot (snapshot E (now_at E (ticks w)) trackers)))"
  by (simp add: save_eq write_file_def)





subsection \<open>The run\<close>

lemma wp_fetch_posts_frame:
  "files (snd (wp_fetch_posts E w)) = files w" "ticks (snd (wp_fetch_posts E w)) = ticks w"
  by (simp_all add: wp_fetch_posts_def emit_def split: sum.splits)

lemma reddit_fetch_posts_frame:
  "files (snd (reddit_fetch_posts E b w)) = files w" "ticks (snd (reddit_fetch_posts E b w)) = ticks w"
  by (simp_all add: reddit_fetch_posts_def emit_def split: sum.splits)

lemma after_fetch_frame: "files (after_fetch E w) = files w" "ticks (after_fetch E w) = ticks w"
  by (simp_all add: after_fetch_def reddit_fetch_posts_frame wp_fetch_posts_frame)


lemma run_try_nonempty:
  "fetched E w \<noteq> [] \<Longrightarrow>
   run_try E w =
     (case create_visualizations ''data'' (fetched E w) (save E ''data'' (fetched E w) (after_fetch E w)) of
        (Some e, w4) \<Rightarrow> (Some e, w4)
      | (None, w4) \<Rightarrow>
          (case display_results E (fetched E w) w4 of
             (Some e, w5) \<Rightarrow> (Some e, w5)
           | (None, w5) \<Rightarrow> create_markdown_report E ''data'' (fetched E w) w5))"
  unfolding run_try_def fetched_def after_fetch_def Let_def case_prod_beta
  by (simp only: if_False)















subsection \<open>The order of the rows\<close>

text \<open>
  Records whose dates are all naive, or all aware, are sorted by date, latest first.
\<close>

lemma sorted_by_date_desc_sorted:
  assumes "comparable (map date ts)"
  shows "\<exists>ss. sorted_by_date_desc ts = Inr ss \<and> mset ss = mset ts \<and>
           sorted (rev (map (\<lambda>t. micros (date t)) ss))"
proof -
  let ?ss = "rev (sort_key (\<lambda>t. micros (date t)) (rev ts))"
  have "sorted_by_date_desc ts = Inr ?ss" using assms by (simp add: sorted_by_date_desc_def)
  moreover have "mset ?ss = mset ts" by simp
  moreover have "sorted (rev (map (\<lambda>t. micros (date t)) ?ss))"
    by (simp add: rev_map [symmetric])
  ultimately show ?thesis by blast
qed

lemma run_sort_raises:
  assumes ne: "fetched E w \<noteq> []"
    and st: "category_stats [] (fetched E w) = Inr stats"
    and rw: "sorted_by_date_desc (fetched E w) = Inl e"
  shows "printed (run E w) =
           printed (after_fetch E w) @ (if stats = [] then [No_category_data] else []) @ [Main_run_error e]"
    and "files (run E w) ''data/README.md'' = files w ''data/README.md''"
  using ne st rw
  by (simp_all add: run_def run_try_nonempty create_visualizations_def display_results_def
      bind_err_def emit_def write_file_def files_save ticks_save printed_save
      after_fetch_frame dated_file_def Let_def split: prod.splits)

lemma fetched_mixed:
  "fetched example_env_mixed empty_world =
     [\<lparr>name = JStr ''Foo Tracker'', date = Aware 1704240000000000, description = ''A tracker.'',
       categories = [JStr ''General''], url = JStr ''https://opentrackers.org/foo/'', status = True\<rparr>,
      \<lparr>name = JStr ''Bar'', date = Naive 1704153600000000, description = ''Signups are open.'',
       categories = [], url = JStr ''https://example.org/signup'', status = True\<rparr>]"
  by (simp add: fetched_def example_env_mixed_def fetch_eval parse_eval)

lemma after_fetch_mixed: "printed (after_fetch example_env_mixed empty_world) = []"
  by (simp add: after_fetch_def example_env_mixed_def fetch_eval parse_eval)

text \<open>
  Claim C2. A WordPress date that ends in Z is parsed to an aware datetime, a Reddit
  creation time to a naive one. With one record of each kind the sort for the console table
  raises TypeError: the run prints the error, shows no table and writes no report.
\<close>

theorem mixed_dates_raise:
  "fetched example_env_mixed empty_world =
     [\<lparr>name = JStr ''Foo Tracker'', date = Aware 1704240000000000, description = ''A tracker.'',
       categories = [JStr ''General''], url = JStr ''https://opentrackers.org/foo/'', status = True\<rparr>,
      \<lparr>name = JStr ''Bar'', date = Naive 1704153600000000, description = ''Signups are open.'',
       categories = [], url = JStr ''https://example.org/signup'', status = True\<rparr>] \<and>
   sorted_by_date_desc (fetched example_env_mixed empty_world) = Inl TypeError \<and>
   printed (run example_env_mixed empty_world) = [Main_run_error TypeError] \<and>
   files (run example_env_mixed empty_world) ''data/README.md'' = None"
proof -
  let ?ts = "fetched example_env_mixed empty_world"
  have s: "sorted_by_date_desc ?ts = Inl TypeError"
    unfolding fetched_mixed by (simp add: sorted_by_date_desc_def comparable_def)
  have c: "category_stats [] ?ts = Inr [(JStr ''General'', 1)]"
    unfolding fetched_mixed by (simp add: bind_err_def hashable_def)
  have ne: "?ts \<noteq> []" unfolding fetched_mixed by simp
  have "printed (run example_env_mixed empty_world) = [Main_run_error TypeError]"
    using run_sort_raises(1) [OF ne c s] by (simp add: after_fetch_mixed)
  moreover have "files (run example_env_mixed empty_world) ''data/README.md'' = None"
    using run_sort_raises(2) [OF ne c s] by (simp add: empty_world_def)
  ultimately show ?thesis using s fetched_mixed by simp
qed


subsection \<open>The page fetch of the scraper\<close>

lemma attempts_skip:
  "(\<forall>j<m. failed_response (net (i + j))) \<Longrightarrow> m \<le> k \<Longrightarrow>
   attempts k net i =
     (fst (attempts (k - m) net (i + m)),
      concat (replicate m [Get_request, Sleep 2]) @ snd (attempts (k - m) net (i + m)))"
proof (induction m arbitrary: k i)
  case 0
  show ?case by simp
next
  case (Suc m)
  from Suc.prems(2) obtain k' where k: "k = Suc k'" by (cases k) auto
  from Suc.prems(1) have "failed_response (net (i + 0))" by blast
  then obtain c b where n: "net i = Get_response c b" and c: "c \<noteq> 200"
    by (auto simp: failed_response_def split: get_outcome.splits)
  have "\<forall>j<m. failed_response (net (Suc i + j))"
  proof (intro allI impI)
    fix j assume "j < m"
    then have "Suc j < Suc m" by simp
    with Suc.prems(1) have "failed_response (net (i + Suc j))" by blast
    then show "failed_response (net (Suc i + j))" by simp
  qed
  moreover have "m \<le> k'" using Suc.prems(2) k by simp
  ultimately have ih: "attempts k' net (Suc i) =
     (fst (attempts (k' - m) net (Suc i + m)),
      concat (replicate m [Get_request, Sleep 2]) @ snd (attempts (k' - m) net (Suc i + m)))"
    by (rule Suc.IH)
  show ?case
    unfolding k using n c by (simp add: ih split: prod.splits)
qed

text \<open>
  Claim C5, as amended. The page fetch makes at most three GETs. After a response whose
  status is not 200 it sleeps 2 seconds and goes on; after three of them it returns the empty
  string. The first response with status 200 ends the fetch with its body. A transport error
  ends the fetch at once with the empty string: there is no further attempt.
\<close>

theorem sayfa_icerik_al_attempts:
  "(i < 3 \<and> (\<forall>j<i. failed_response (net j)) \<and> net i = Get_response 200 body \<longrightarrow>
      sayfa_icerik_al net = (body, concat (replicate i [Get_request, Sleep 2]) @ [Get_request])) \<and>
   (i < 3 \<and> (\<forall>j<i. failed_response (net j)) \<and> net i = Get_raises e \<longrightarrow>
      sayfa_icerik_al net =
        ([], concat (replicate i [Get_request, Sleep 2]) @ [Get_request, Connection_error e])) \<and>
   ((\<forall>j<3. failed_response (net j)) \<longrightarrow>
      sayfa_icerik_al net = ([], concat (replicate 3 [Get_request, Sleep 2]))) \<and>
   length (filter (\<lambda>x. x = Get_request) (snd (sayfa_icerik_al net))) \<le> 3"
proof (intro conjI impI)
  assume a: "i < 3 \<and> (\<forall>j<i. failed_response (net j)) \<and> net i = Get_response 200 body"
  then obtain k where k: "3 - i = Suc k" by (cases "3 - i") auto
  from a have "attempts 3 net 0 =
     (fst (attempts (3 - i) net (0 + i)),
      concat (replicate i [Get_request, Sleep 2]) @ snd (attempts (3 - i) net (0 + i)))"
    by (intro attempts_skip) simp_all
  then show "sayfa_icerik_al net = (body, concat (replicate i [Get_request, Sleep 2]) @ [Get_request])"
    using a by (simp add: sayfa_icerik_al_def k)
next
  assume a: "i < 3 \<and> (\<forall>j<i. failed_response (net j)) \<and> net i = Get_raises e"
  then obtain k where k: "3 - i = Suc k" by (cases "3 - i") auto
  from a have "attempts 3 net 0 =
     (fst (attempts (3 - i) net (0 + i)),
      concat (replicate i [Get_request, Sleep 2]) @ snd (attempts (3 - i) net (0 + i)))"
    by (intro attempts_skip) simp_all
  then show "sayfa_icerik_al net =
        ([], concat (replicate i [Get_request, Sleep 2]) @ [Get_request, Connection_error e])"
    using a by (simp add: sayfa_icerik_al_def k)
next
  assume a: "\<forall>j<3. failed_response (net j)"
  then have "attempts 3 net 0 =
     (fst (attempts (3 - 3) net (0 + 3)),
      concat (replicate 3 [Get_request, Sleep 2]) @ snd (attempts (3 - 3) net (0 + 3)))"
    by (intro attempts_skip) simp_all
  then show "sayfa_icerik_al net = ([], concat (replicate 3 [Get_request, Sleep 2]))"
    by (simp add: sayfa_icerik_al_def)
next
  have "length (filter (\<lambda>x. x = Get_request) (snd (attempts k net i))) \<le> k" for k i
  proof (induction k arbitrary: i)
    case 0
    show ?case by simp
  next
    case (Suc k)
    show ?case using Suc.IH [of "Suc i"]
      by (auto split: get_outcome.splits prod.splits)
  qed
  from this [of 3 0] show "length (filter (\<lambda>x. x = Get_request) (snd (sayfa_icerik_al net))) \<le> 3"
    by (auto simp: sayfa_icerik_al_def split: prod.splits sum.splits)
qed

theorem sayfa_icerik_al_attempts_witness:
  "failed_response (net_third_succeeds 0) \<and> failed_response (net_third_succeeds 1) \<and>
   net_third_succeeds 2 = Get_response 200 ''<html></html>'' \<and>
   sayfa_icerik_al net_third_succeeds =
     (''<html></html>'', [Get_request, Sleep 2, Get_request, Sleep 2, Get_request]) \<and>
   net_first_raises 0 = Get_raises RequestError \<and>
   sayfa_icerik_al net_first_raises = ([], [Get_request, Connection_error RequestError])"
  using sayfa_icerik_al_attempts [where net = net_third_succeeds and i = 2 and body = "''<html></html>''"]
    sayfa_icerik_al_attempts [where net = net_first_raises and i = 0 and e = RequestError]
  by (simp add: net_third_succeeds_def net_first_raises_def failed_response_def numeral_2_eq_2
      All_less_Suc)

text \<open>
  The claim as stated fails: when the first GET raises, the fetch returns the empty string
  after that one attempt, although the second and third GET would have succeeded.
\<close>

theorem sayfa_icerik_al_counterexample:
  "sayfa_icerik_al net_first_raises = ([], [Get_request, Connection_error RequestError]) \<and>
   net_first_raises 1 = Get_response 200 ''<html></html>'' \<and>
   net_first_raises 2 = Get_response 200 ''<html></html>''"
  by (simp add: sayfa_icerik_al_def net_first_raises_def numeral_3_eq_3)


subsection \<open>The containers of the scraper\<close>

lemma find_title_None:
  "find_first post (is_tag ''h1'') = None \<Longrightarrow> find_first post (is_tag ''h2'') = None \<Longrightarrow>
   find_first post (is_tag ''h3'') = None \<Longrightarrow> find_title post [''h1'', ''h2'', ''h3''] = None"
  by simp








end
